theory Spec2Isabelle
  imports Complex_Main "HOL-Library.Word"
begin

section \<open>The black-oil fluid state container\<close>

text \<open>
  A shallow embedding of the class template \<open>Opm::BlackOilFluidStateSimple\<close>
  (\<open>BlackOilFluidStateSimple.hpp\<close>). The template arguments become a record of
  configuration values, the static interface of the \<open>FluidSystem\<close> argument becomes
  a record of functions, and every member function becomes a function on the record of
  the data members. Whatever aborts, throws or indexes outside an array returns an
  \<open>error\<close> instead of a value.

  The scalar type \<open>ScalarT\<close> is the type variable \<open>'a\<close>. The index of a fluid phase
  (an \<open>unsigned\<close> that is only compared and incremented below \<open>numStoragePhases\<close>)
  is a \<open>nat\<close>. The index of a PVT region is narrowed by the code, so it keeps its
  widths: \<open>unsigned\<close> is a 32 bit word and \<open>unsigned short\<close> a 16 bit word.
\<close>

type_synonym u16 = "16 word"
type_synonym u32 = "32 word"

datatype error =
    AssertionFailed   \<comment> \<open>a failed \<open>assert\<close> of a build without \<open>NDEBUG\<close>\<close>
  | DisabledStorage   \<comment> \<open>access to a \<open>ConditionalStorage\<close> whose condition is false\<close>
  | OutOfBounds       \<comment> \<open>index outside a \<open>std::array\<close> (undefined behaviour in C++)\<close>

text \<open>Sequencing of steps that may fail: the first error ends the computation.\<close>

definition andThen :: "error + 'x \<Rightarrow> ('x \<Rightarrow> error + 'y) \<Rightarrow> error + 'y" where
  "andThen r f = (case r of Inl e \<Rightarrow> Inl e | Inr x \<Rightarrow> f x)"

text \<open>
  The template arguments of the class after \<open>ScalarT\<close> and \<open>FluidSystem\<close>, and
  whether the translation unit is compiled with \<open>NDEBUG\<close> (which turns \<open>assert\<close>
  into nothing).
\<close>

record config =
  enableTemperature :: bool
  enableEnergy :: bool
  enableDissolution :: bool
  numStoragePhases :: nat
  NDEBUG :: bool

text \<open>
  The static members of the template argument \<open>FluidSystem\<close> that the class calls.
  \<open>BlackOilFluidSystem.hpp\<close> is not among the sources, so they are parameters.
\<close>

record 'a FluidSystem =
  reservoirTemperature :: "nat \<Rightarrow> 'a"
  activeToCanonicalPhaseIdx :: "nat \<Rightarrow> nat"
  canonicalToActivePhaseIdx :: "nat \<Rightarrow> nat"

text \<open>
  The data members. A trailing underscore is not a name in Isabelle, so the member
  \<open>pressure_\<close> is the field \<open>pressure_m\<close>, and so on. A member of type
  \<open>ConditionalStorage<cond, T>\<close> is a field of type \<open>T\<close> that is only reached
  through \<open>deref\<close> below, so its content is without effect while \<open>cond\<close> is
  false; a \<open>std::array<Scalar, numStoragePhases>\<close> is a list, which has
  \<open>numStoragePhases\<close> elements in every state that \<open>wf_state\<close> accepts.

  Two member functions are left out, since they neither read nor write anything
  here: \<open>checkDefined\<close>, which only talks to valgrind, and \<open>viscosity\<close>, which
  hands the object to \<open>FluidSystem::viscosity\<close>.
\<close>

record 'a BlackOilFluidStateSimple =
  temperature_m :: 'a
  enthalpy_m :: "'a list"
  pressure_m :: "'a list"
  saturation_m :: "'a list"
  invB_m :: "'a list"
  density_m :: "'a list"
  Rs_m :: 'a
  Rv_m :: 'a
  pvtRegionIdx_m :: u16

definition wf_state :: "config \<Rightarrow> 'a BlackOilFluidStateSimple \<Rightarrow> bool" where
  "wf_state cfg s =
     ((if enableEnergy cfg then length (enthalpy_m s) = numStoragePhases cfg else True) \<and>
      length (pressure_m s) = numStoragePhases cfg \<and>
      length (saturation_m s) = numStoragePhases cfg \<and>
      length (invB_m s) = numStoragePhases cfg \<and>
      length (density_m s) = numStoragePhases cfg)"

text \<open>
  Modelled from the spec: \<open>Opm::ConditionalStorage\<close> (\<open>ConditionalStorage.hpp\<close> is
  not among the sources), "a storage wrapper that holds a value only if a compile-time
  flag is true, otherwise occupies no space and aborts/no-ops access". Of the two, the
  access to a disabled storage is taken to abort: the comments of \<open>setTemperature\<close>,
  \<open>setEnthalpy\<close>, \<open>enthalpy\<close> and \<open>internalEnergy\<close> all say that the method
  "will throw an exception" when its feature is disabled. \<open>deref\<close> is \<open>operator*\<close>,
  for reading and for writing.
\<close>

definition deref :: "bool \<Rightarrow> 'x \<Rightarrow> error + 'x" where
  "deref cond v = (if cond then Inr v else Inl DisabledStorage)"

text \<open>\<open>assert(b)\<close>: nothing under \<open>NDEBUG\<close>, otherwise an abort when \<open>b\<close> is false.\<close>

definition assert_dbg :: "config \<Rightarrow> bool \<Rightarrow> error + unit" where
  "assert_dbg cfg b = (if \<not> NDEBUG cfg \<and> \<not> b then Inl AssertionFailed else Inr ())"

text \<open>Reading and writing \<open>a[i]\<close> of a \<open>std::array\<close>.\<close>

definition array_get :: "'x list \<Rightarrow> nat \<Rightarrow> error + 'x" where
  "array_get xs i = (if i < length xs then Inr (xs ! i) else Inl OutOfBounds)"

definition array_set :: "'x list \<Rightarrow> nat \<Rightarrow> 'x \<Rightarrow> error + 'x list" where
  "array_set xs i v = (if i < length xs then Inr (xs[i := v]) else Inl OutOfBounds)"

subsection \<open>The phase index mapping\<close>

definition storageToCanonicalPhaseIndex :: "config \<Rightarrow> 'a FluidSystem \<Rightarrow> nat \<Rightarrow> nat" where
  "storageToCanonicalPhaseIndex cfg fsys storagePhaseIdx =
     (if numStoragePhases cfg = 3 then storagePhaseIdx
      else activeToCanonicalPhaseIdx fsys storagePhaseIdx)"

definition canonicalToStoragePhaseIndex :: "config \<Rightarrow> 'a FluidSystem \<Rightarrow> nat \<Rightarrow> nat" where
  "canonicalToStoragePhaseIndex cfg fsys canonicalPhaseIdx =
     (if numStoragePhases cfg = 3 then canonicalPhaseIdx
      else canonicalToActivePhaseIdx fsys canonicalPhaseIdx)"

subsection \<open>The setters\<close>

definition setPvtRegionIndex ::
  "u32 \<Rightarrow> 'a BlackOilFluidStateSimple \<Rightarrow> 'a BlackOilFluidStateSimple" where
  "setPvtRegionIndex newPvtRegionIdx s = s\<lparr>pvtRegionIdx_m := ucast newPvtRegionIdx\<rparr>"

definition setPressure ::
  "config \<Rightarrow> 'a FluidSystem \<Rightarrow> nat \<Rightarrow> 'a \<Rightarrow> 'a BlackOilFluidStateSimple
   \<Rightarrow> error + 'a BlackOilFluidStateSimple" where
  "setPressure cfg fsys phaseIdx p s =
     andThen (array_set (pressure_m s) (canonicalToStoragePhaseIndex cfg fsys phaseIdx) p)
       (\<lambda>a. Inr (s\<lparr>pressure_m := a\<rparr>))"

definition setSaturation ::
  "config \<Rightarrow> 'a FluidSystem \<Rightarrow> nat \<Rightarrow> 'a \<Rightarrow> 'a BlackOilFluidStateSimple
   \<Rightarrow> error + 'a BlackOilFluidStateSimple" where
  "setSaturation cfg fsys phaseIdx S s =
     andThen (array_set (saturation_m s) (canonicalToStoragePhaseIndex cfg fsys phaseIdx) S)
       (\<lambda>a. Inr (s\<lparr>saturation_m := a\<rparr>))"

definition setTemperature ::
  "config \<Rightarrow> 'a \<Rightarrow> 'a BlackOilFluidStateSimple \<Rightarrow> error + 'a BlackOilFluidStateSimple" where
  "setTemperature cfg val s =
     andThen (assert_dbg cfg (enableTemperature cfg \<or> enableEnergy cfg))
       (\<lambda>_. andThen (deref (enableTemperature cfg \<or> enableEnergy cfg) (temperature_m s))
         (\<lambda>_. Inr (s\<lparr>temperature_m := val\<rparr>)))"

definition setEnthalpy ::
  "config \<Rightarrow> 'a FluidSystem \<Rightarrow> nat \<Rightarrow> 'a \<Rightarrow> 'a BlackOilFluidStateSimple
   \<Rightarrow> error + 'a BlackOilFluidStateSimple" where
  "setEnthalpy cfg fsys phaseIdx val s =
     andThen (assert_dbg cfg (enableTemperature cfg \<or> enableEnergy cfg))
       (\<lambda>_. andThen (deref (enableEnergy cfg) (enthalpy_m s))
         (\<lambda>h. andThen (array_set h (canonicalToStoragePhaseIndex cfg fsys phaseIdx) val)
           (\<lambda>a. Inr (s\<lparr>enthalpy_m := a\<rparr>))))"

definition setInvB ::
  "config \<Rightarrow> 'a FluidSystem \<Rightarrow> nat \<Rightarrow> 'a \<Rightarrow> 'a BlackOilFluidStateSimple
   \<Rightarrow> error + 'a BlackOilFluidStateSimple" where
  "setInvB cfg fsys phaseIdx b s =
     andThen (array_set (invB_m s) (canonicalToStoragePhaseIndex cfg fsys phaseIdx) b)
       (\<lambda>a. Inr (s\<lparr>invB_m := a\<rparr>))"

definition setDensity ::
  "config \<Rightarrow> 'a FluidSystem \<Rightarrow> nat \<Rightarrow> 'a \<Rightarrow> 'a BlackOilFluidStateSimple
   \<Rightarrow> error + 'a BlackOilFluidStateSimple" where
  "setDensity cfg fsys phaseIdx rho s =
     andThen (array_set (density_m s) (canonicalToStoragePhaseIndex cfg fsys phaseIdx) rho)
       (\<lambda>a. Inr (s\<lparr>density_m := a\<rparr>))"

definition setRs ::
  "config \<Rightarrow> 'a \<Rightarrow> 'a BlackOilFluidStateSimple \<Rightarrow> error + 'a BlackOilFluidStateSimple" where
  "setRs cfg newRs s =
     andThen (deref (enableDissolution cfg) (Rs_m s)) (\<lambda>_. Inr (s\<lparr>Rs_m := newRs\<rparr>))"

definition setRv ::
  "config \<Rightarrow> 'a \<Rightarrow> 'a BlackOilFluidStateSimple \<Rightarrow> error + 'a BlackOilFluidStateSimple" where
  "setRv cfg newRv s =
     andThen (deref (enableDissolution cfg) (Rv_m s)) (\<lambda>_. Inr (s\<lparr>Rv_m := newRv\<rparr>))"

subsection \<open>The accessors\<close>

definition pressure ::
  "config \<Rightarrow> 'a FluidSystem \<Rightarrow> 'a BlackOilFluidStateSimple \<Rightarrow> nat \<Rightarrow> error + 'a" where
  "pressure cfg fsys s phaseIdx =
     array_get (pressure_m s) (canonicalToStoragePhaseIndex cfg fsys phaseIdx)"

definition saturation ::
  "config \<Rightarrow> 'a FluidSystem \<Rightarrow> 'a BlackOilFluidStateSimple \<Rightarrow> nat \<Rightarrow> error + 'a" where
  "saturation cfg fsys s phaseIdx =
     array_get (saturation_m s) (canonicalToStoragePhaseIndex cfg fsys phaseIdx)"

text \<open>
  \<open>temperature\<close> keeps its fallback in a function-local \<open>static Scalar tmp\<close>. C++
  initialises such a variable when control first passes through its declaration, and
  never again; there is one variable for the whole class, shared by its objects. So the
  variable is part of the program state: \<open>None\<close> before the first call that reaches
  the declaration and \<open>Some\<close> of its value afterwards. The function takes it and
  returns it next to its result.
\<close>

definition temperature ::
  "config \<Rightarrow> 'a FluidSystem \<Rightarrow> 'a option \<Rightarrow> 'a BlackOilFluidStateSimple \<Rightarrow> nat
   \<Rightarrow> (error + 'a) \<times> 'a option" where
  "temperature cfg fsys tmp s phaseIdx =
     (if \<not> enableTemperature cfg \<and> \<not> enableEnergy cfg then
        (case tmp of
           None \<Rightarrow>
             (let t = reservoirTemperature fsys (unat (pvtRegionIdx_m s))
              in (Inr t, Some t))
         | Some t \<Rightarrow> (Inr t, Some t))
      else (deref (enableTemperature cfg \<or> enableEnergy cfg) (temperature_m s), tmp))"

definition invB ::
  "config \<Rightarrow> 'a FluidSystem \<Rightarrow> 'a BlackOilFluidStateSimple \<Rightarrow> nat \<Rightarrow> error + 'a" where
  "invB cfg fsys s phaseIdx =
     array_get (invB_m s) (canonicalToStoragePhaseIndex cfg fsys phaseIdx)"

text \<open>
  The \<open>static Scalar null = 0.0\<close> of \<open>Rs\<close> and \<open>Rv\<close> is initialised with a constant
  and handed out by reference to const, so it is the constant \<open>0\<close>.
\<close>

definition Rs :: "config \<Rightarrow> 'a::zero BlackOilFluidStateSimple \<Rightarrow> error + 'a" where
  "Rs cfg s = (if \<not> enableDissolution cfg then Inr 0 else deref (enableDissolution cfg) (Rs_m s))"

definition Rv :: "config \<Rightarrow> 'a::zero BlackOilFluidStateSimple \<Rightarrow> error + 'a" where
  "Rv cfg s = (if \<not> enableDissolution cfg then Inr 0 else deref (enableDissolution cfg) (Rv_m s))"

definition pvtRegionIndex :: "'a BlackOilFluidStateSimple \<Rightarrow> u16" where
  "pvtRegionIndex s = pvtRegionIdx_m s"

definition density ::
  "config \<Rightarrow> 'a FluidSystem \<Rightarrow> 'a BlackOilFluidStateSimple \<Rightarrow> nat \<Rightarrow> error + 'a" where
  "density cfg fsys s phaseIdx =
     array_get (density_m s) (canonicalToStoragePhaseIndex cfg fsys phaseIdx)"

definition enthalpy ::
  "config \<Rightarrow> 'a FluidSystem \<Rightarrow> 'a BlackOilFluidStateSimple \<Rightarrow> nat \<Rightarrow> error + 'a" where
  "enthalpy cfg fsys s phaseIdx =
     andThen (deref (enableEnergy cfg) (enthalpy_m s))
       (\<lambda>h. array_get h (canonicalToStoragePhaseIndex cfg fsys phaseIdx))"

definition internalEnergy ::
  "config \<Rightarrow> 'a FluidSystem \<Rightarrow> ('a::{minus,inverse}) BlackOilFluidStateSimple \<Rightarrow> nat
   \<Rightarrow> error + 'a" where
  "internalEnergy cfg fsys s phaseIdx =
     andThen (deref (enableEnergy cfg) (enthalpy_m s))
       (\<lambda>h. andThen (array_get h (canonicalToStoragePhaseIndex cfg fsys phaseIdx))
         (\<lambda>hv. andThen (pressure cfg fsys s phaseIdx)
           (\<lambda>p. andThen (density cfg fsys s phaseIdx)
             (\<lambda>rho. Inr (hv - p / rho)))))"

subsection \<open>assign\<close>

text \<open>
  What \<open>assign\<close> asks of its argument \<open>fs\<close>, a fluid state of any class: the
  accessors it calls, and the helpers \<open>getPvtRegionIndex_\<close>, \<open>BlackOil::getRs_\<close>,
  \<open>BlackOil::getRv_\<close> and \<open>getInvB_\<close> applied to \<open>fs\<close>. The helpers are declared in
  headers that are not among the sources, so they are parameters as well.
\<close>

record 'a source =
  fs_temperature :: "nat \<Rightarrow> 'a"
  fs_saturation :: "nat \<Rightarrow> 'a"
  fs_pressure :: "nat \<Rightarrow> 'a"
  fs_density :: "nat \<Rightarrow> 'a"
  fs_enthalpy :: "nat \<Rightarrow> 'a"
  getPvtRegionIndex :: u32
  getRs :: "u32 \<Rightarrow> 'a"
  getRv :: "u32 \<Rightarrow> 'a"
  getInvB :: "nat \<Rightarrow> u32 \<Rightarrow> 'a"

text \<open>The body of the loop over the storage phases.\<close>

definition assign_phase ::
  "config \<Rightarrow> 'a FluidSystem \<Rightarrow> 'a source \<Rightarrow> u32 \<Rightarrow> nat \<Rightarrow> 'a BlackOilFluidStateSimple
   \<Rightarrow> error + 'a BlackOilFluidStateSimple" where
  "assign_phase cfg fsys fs pvtRegionIdx storagePhaseIdx s =
     (let phaseIdx = storageToCanonicalPhaseIndex cfg fsys storagePhaseIdx in
      andThen (setSaturation cfg fsys phaseIdx (fs_saturation fs phaseIdx) s)
        (\<lambda>s. andThen (setPressure cfg fsys phaseIdx (fs_pressure fs phaseIdx) s)
          (\<lambda>s. andThen (setDensity cfg fsys phaseIdx (fs_density fs phaseIdx) s)
            (\<lambda>s. andThen
                (if enableEnergy cfg
                 then setEnthalpy cfg fsys phaseIdx (fs_enthalpy fs phaseIdx) s
                 else Inr s)
              (\<lambda>s. setInvB cfg fsys phaseIdx (getInvB fs phaseIdx pvtRegionIdx) s)))))"

function assign_loop ::
  "config \<Rightarrow> 'a FluidSystem \<Rightarrow> 'a source \<Rightarrow> u32 \<Rightarrow> nat \<Rightarrow> 'a BlackOilFluidStateSimple
   \<Rightarrow> error + 'a BlackOilFluidStateSimple" where
  "assign_loop cfg fsys fs pvtRegionIdx storagePhaseIdx s =
     (if storagePhaseIdx < numStoragePhases cfg then
        (case assign_phase cfg fsys fs pvtRegionIdx storagePhaseIdx s of
           Inl e \<Rightarrow> Inl e
         | Inr s' \<Rightarrow> assign_loop cfg fsys fs pvtRegionIdx (storagePhaseIdx + 1) s')
      else Inr s)"
  by pat_completeness auto
termination
  by (relation "measure (\<lambda>(cfg, fsys, fs, r, i, s). numStoragePhases cfg - i)") auto

definition assign ::
  "config \<Rightarrow> 'a FluidSystem \<Rightarrow> 'a source \<Rightarrow> 'a BlackOilFluidStateSimple
   \<Rightarrow> error + 'a BlackOilFluidStateSimple" where
  "assign cfg fsys fs s =
     andThen
       (if enableTemperature cfg \<or> enableEnergy cfg
        then setTemperature cfg (fs_temperature fs 0) s
        else Inr s)
       (\<lambda>s. let pvtRegionIdx = getPvtRegionIndex fs;
                 s = setPvtRegionIndex pvtRegionIdx s
             in andThen
                  (if enableDissolution cfg
                   then andThen (setRs cfg (getRs fs pvtRegionIdx) s)
                          (\<lambda>s. setRv cfg (getRv fs pvtRegionIdx) s)
                   else Inr s)
                  (\<lambda>s. assign_loop cfg fsys fs pvtRegionIdx 0 s))"

section \<open>The phase table of the fluid system\<close>

text \<open>
  Modelled from the spec: the list of the active phases of the fluid system
  (\<open>BlackOilFluidSystem.hpp\<close> is not among the sources). The canonical indices are
  fixed, water 0, oil 1 and gas 2, and \<open>phaseIsActive\<close> says which of the three
  phases are simulated; the active phases keep their canonical order.
\<close>

definition activePhases :: "(nat \<Rightarrow> bool) \<Rightarrow> nat list" where
  "activePhases phaseIsActive = filter phaseIsActive [0..<3]"

text \<open>
  Modelled from the spec: \<open>FluidSystem::activeToCanonicalPhaseIdx\<close> and
  \<open>FluidSystem::canonicalToActivePhaseIdx\<close> (\<open>BlackOilFluidSystem.hpp\<close> is not among
  the sources). The active indices are "only phases actually simulated, densely
  packed", kept in "a small injective lookup table built once from the active-phase
  configuration": the active index of an active phase is the number of active phases
  before it. For an index that is not active the spec leaves the result undefined, and
  so does \<open>!\<close> beyond the end of the list.
\<close>

definition blackOilFluidSystem :: "(nat \<Rightarrow> bool) \<Rightarrow> (nat \<Rightarrow> 'a) \<Rightarrow> 'a FluidSystem" where
  "blackOilFluidSystem phaseIsActive resTemp =
     \<lparr>reservoirTemperature = resTemp,
      activeToCanonicalPhaseIdx = (\<lambda>activeIdx. activePhases phaseIsActive ! activeIdx),
      canonicalToActivePhaseIdx = (\<lambda>phaseIdx. length (filter phaseIsActive [0..<phaseIdx]))\<rparr>"

section \<open>The saturated line of the table-backed PVT models\<close>

text \<open>
  The PVT models (\<open>LiveOilPvt.hpp\<close>, \<open>WetGasPvt.hpp\<close> and the multiplexers) are not
  among the sources; only their test is. What follows is written from the spec, over
  an ordered field as the scalar (the spec takes the scalar to be any type with
  arithmetic and comparison). Rounding of a floating-point scalar is not modelled.
\<close>

text \<open>
  Modelled from the spec: the interpolation table of one PVT region (the table class of
  the PVT models is not among the sources), "ordered pressure breakpoints and
  corresponding dissolution-ratio breakpoints", as a list of pairs of a pressure and a
  factor.
\<close>

type_synonym 'a table = "('a \<times> 'a) list"

text \<open>
  Modelled from the spec: a query "with a region index outside \<open>[0, numPvtRegions)\<close>"
  is a contract violation that fails fast.
\<close>

datatype pvt_error = RegionOutOfRange

text \<open>
  Modelled from the spec: the segment of a table (not among the sources), the line
  through two neighbouring breakpoints, which is the linear interpolation between them
  and, continued, the extrapolation "linear in the nearest-slope sense".
\<close>

definition segment :: "('a::linordered_field) \<times> 'a \<Rightarrow> 'a \<times> 'a \<Rightarrow> 'a \<Rightarrow> 'a" where
  "segment a b p = snd a + (snd b - snd a) / (fst b - fst a) * (p - fst a)"

text \<open>
  Modelled from the spec: the evaluation of a table at a pressure (not among the
  sources). Between two breakpoints it interpolates; below the first and above the last
  breakpoint it follows the first and the last segment ("no clamping"). The spec says
  nothing of a table with fewer than two breakpoints; \<open>wf_table\<close> excludes it.
\<close>

fun evalTable :: "('a::linordered_field) table \<Rightarrow> 'a \<Rightarrow> 'a" where
  "evalTable (a # b # c # t) p =
     (if p \<le> fst b then segment a b p else evalTable (b # c # t) p)"
| "evalTable [a, b] p = segment a b p"
| "evalTable [a] p = snd a"
| "evalTable [] p = 0"

text \<open>
  Modelled from the spec: the input table contract, which the parser outside this
  repository establishes. The breakpoints "must be strictly increasing in the
  independent variable", the pressure, with no duplicate keys; and there are at least
  two of them, since a segment needs two. The contract says nothing of the order of the
  factors.
\<close>

definition wf_table :: "('a::linordered_field) table \<Rightarrow> bool" where
  "wf_table t = (2 \<le> length t \<and> sorted_wrt (<) (map fst t))"

text \<open>
  Modelled from the spec: \<open>saturatedGasDissolutionFactor(region, T, p)\<close> of the
  table-backed oil model (\<open>LiveOilPvt.hpp\<close> is not among the sources). There is one
  table for each PVT region; a region index outside \<open>[0, numPvtRegions)\<close> is a
  contract violation. The table is indexed by pressure alone.
\<close>

definition saturatedGasDissolutionFactor ::
  "('a::linordered_field) table list \<Rightarrow> nat \<Rightarrow> 'a \<Rightarrow> 'a \<Rightarrow> pvt_error + 'a" where
  "saturatedGasDissolutionFactor tabs regionIdx T p =
     (if regionIdx < length tabs then Inr (evalTable (tabs ! regionIdx) p)
      else Inl RegionOutOfRange)"


section \<open>The effect of assign in closed form\<close>

text \<open>
  Auxiliary definitions for the proofs about \<open>assign\<close>. The loop is a sequence of
  writes \<open>a[k j] = v j\<close>, one for each \<open>j\<close> of a list, into each of the arrays.
\<close>

definition writes :: "(nat \<Rightarrow> nat) \<Rightarrow> (nat \<Rightarrow> 'x) \<Rightarrow> nat list \<Rightarrow> 'x list \<Rightarrow> 'x list" where
  "writes k v js xs = fold (\<lambda>j ys. ys[k j := v j]) js xs"

text \<open>The array element that iteration \<open>j\<close> of the loop writes.\<close>

definition phase_slot :: "config \<Rightarrow> 'a FluidSystem \<Rightarrow> nat \<Rightarrow> nat" where
  "phase_slot cfg fsys j =
     canonicalToStoragePhaseIndex cfg fsys (storageToCanonicalPhaseIndex cfg fsys j)"

text \<open>Iteration \<open>j\<close> stays inside every array it writes.\<close>

definition slots_ok ::
  "config \<Rightarrow> 'a FluidSystem \<Rightarrow> 'a BlackOilFluidStateSimple \<Rightarrow> nat \<Rightarrow> bool" where
  "slots_ok cfg fsys s j =
     (phase_slot cfg fsys j < length (saturation_m s) \<and>
      phase_slot cfg fsys j < length (pressure_m s) \<and>
      phase_slot cfg fsys j < length (density_m s) \<and>
      (if enableEnergy cfg then phase_slot cfg fsys j < length (enthalpy_m s) else True) \<and>
      phase_slot cfg fsys j < length (invB_m s))"

text \<open>The state after the iterations \<open>js\<close> of the loop, when none of them fails.\<close>

definition phase_writes ::
  "config \<Rightarrow> 'a FluidSystem \<Rightarrow> 'a source \<Rightarrow> u32 \<Rightarrow> nat list \<Rightarrow> 'a BlackOilFluidStateSimple
   \<Rightarrow> 'a BlackOilFluidStateSimple" where
  "phase_writes cfg fsys fs r js s =
     s\<lparr>saturation_m :=
         writes (phase_slot cfg fsys)
           (\<lambda>j. fs_saturation fs (storageToCanonicalPhaseIndex cfg fsys j)) js (saturation_m s),
       pressure_m :=
         writes (phase_slot cfg fsys)
           (\<lambda>j. fs_pressure fs (storageToCanonicalPhaseIndex cfg fsys j)) js (pressure_m s),
       density_m :=
         writes (phase_slot cfg fsys)
           (\<lambda>j. fs_density fs (storageToCanonicalPhaseIndex cfg fsys j)) js (density_m s),
       enthalpy_m :=
         (if enableEnergy cfg
          then writes (phase_slot cfg fsys)
                 (\<lambda>j. fs_enthalpy fs (storageToCanonicalPhaseIndex cfg fsys j)) js (enthalpy_m s)
          else enthalpy_m s),
       invB_m :=
         writes (phase_slot cfg fsys)
           (\<lambda>j. getInvB fs (storageToCanonicalPhaseIndex cfg fsys j) r) js (invB_m s)\<rparr>"

text \<open>The state after the statements of \<open>assign\<close> before the loop.\<close>

definition head_writes ::
  "config \<Rightarrow> 'a source \<Rightarrow> 'a BlackOilFluidStateSimple \<Rightarrow> 'a BlackOilFluidStateSimple" where
  "head_writes cfg fs s =
     s\<lparr>temperature_m :=
         (if enableTemperature cfg \<or> enableEnergy cfg then fs_temperature fs 0
          else temperature_m s),
       pvtRegionIdx_m := ucast (getPvtRegionIndex fs),
       Rs_m := (if enableDissolution cfg then getRs fs (getPvtRegionIndex fs) else Rs_m s),
       Rv_m := (if enableDissolution cfg then getRv fs (getPvtRegionIndex fs) else Rv_m s)\<rparr>"

section \<open>Concrete instances\<close>

text \<open>A debug build of the class with the given flags and number of storage phases.\<close>

definition example_cfg :: "bool \<Rightarrow> bool \<Rightarrow> bool \<Rightarrow> nat \<Rightarrow> config" where
  "example_cfg t e d n =
     \<lparr>enableTemperature = t, enableEnergy = e, enableDissolution = d,
      numStoragePhases = n, NDEBUG = False\<rparr>"

text \<open>Three active phases; region 0 is at 300 K and every other region at 350 K.\<close>

definition example_system :: "real FluidSystem" where
  "example_system = blackOilFluidSystem (\<lambda>_. True) (\<lambda>r. if r = 0 then 300 else 350)"

text \<open>Oil and gas without water.\<close>

definition gas_oil_system :: "real FluidSystem" where
  "gas_oil_system = blackOilFluidSystem (\<lambda>phaseIdx. phaseIdx \<noteq> 0) (\<lambda>r. 300)"

definition example_state :: "real BlackOilFluidStateSimple" where
  "example_state =
     \<lparr>temperature_m = 293, enthalpy_m = [10, 20, 30], pressure_m = [6, 7, 8],
      saturation_m = [1, 0, 0], invB_m = [1, 1, 1], density_m = [3, 2, 1],
      Rs_m = 40, Rv_m = 5, pvtRegionIdx_m = 0\<rparr>"

definition gas_oil_state :: "real BlackOilFluidStateSimple" where
  "gas_oil_state =
     \<lparr>temperature_m = 293, enthalpy_m = [20, 30], pressure_m = [7, 8],
      saturation_m = [1, 0], invB_m = [1, 1], density_m = [2, 1],
      Rs_m = 40, Rv_m = 5, pvtRegionIdx_m = 0\<rparr>"

text \<open>A source fluid state that reports the given PVT region.\<close>

definition example_source :: "u32 \<Rightarrow> real source" where
  "example_source region =
     \<lparr>fs_temperature = (\<lambda>phaseIdx. 350),
      fs_saturation = (\<lambda>phaseIdx. if phaseIdx = 1 then 1 else 0),
      fs_pressure = (\<lambda>phaseIdx. 100 + of_nat phaseIdx),
      fs_density = (\<lambda>phaseIdx. 700 + of_nat phaseIdx),
      fs_enthalpy = (\<lambda>phaseIdx. 50 + of_nat phaseIdx),
      getPvtRegionIndex = region,
      getRs = (\<lambda>pvtRegionIdx. 120),
      getRv = (\<lambda>pvtRegionIdx. 2),
      getInvB = (\<lambda>phaseIdx pvtRegionIdx. 1 + of_nat phaseIdx)\<rparr>"

text \<open>
  Region 0 has the table of the spec's scenario, in bar: a saturated dissolution factor
  of 50 at 100 bar and of 120 at 300 bar.
\<close>

definition example_tables :: "real table list" where
  "example_tables = [[(100, 50), (300, 120)], [(50, 10), (150, 10), (250, 40)]]"


section \<open>Properties\<close>

declare assign_loop.simps [simp del]

subsection \<open>Interpolation keeps the order of the breakpoints\<close>


lemma segment_left: "segment a b (fst a) = snd a"
  by (simp add: segment_def)

lemma segment_right: "fst a < fst b \<Longrightarrow> segment a b (fst b) = snd b"
  by (simp add: segment_def)



text \<open>
  The table of the spec's scenario: between 100 and 300 bar the factor lies strictly
  between 50 and 120, and outside the table the nearest segment is continued.
\<close>

lemma evalTable_scenario:
  "saturatedGasDissolutionFactor example_tables 0 273 200 = Inr 85"
  "saturatedGasDissolutionFactor example_tables 0 273 0 = Inr 15"
  "saturatedGasDissolutionFactor example_tables 1 273 350 = Inr 70"
  by (simp_all add: example_tables_def saturatedGasDissolutionFactor_def segment_def)

text \<open>At each of its pressures a table returns the factor tabulated there.\<close>

lemma evalTable_at_key:
  assumes "sorted_wrt (<) (map fst t)" and "2 \<le> length t" and "i < length t"
  shows "evalTable t (fst (t ! i)) = snd (t ! i)"
  using assms
proof (induction t arbitrary: i rule: induct_list012)
  case 1
  then show ?case by simp
next
  case (2 a)
  then show ?case by simp
next
  case (3 a b t)
  from "3.prems"(1) have ab: "fst a < fst b"
    by simp
  show ?case
  proof (cases t)
    case Nil
    with "3.prems"(3) have "i = 0 \<or> i = 1"
      by auto
    then show ?thesis
      using Nil ab by (auto simp add: segment_left segment_right)
  next
    case (Cons c u)
    from "3.prems"(1) have srt: "sorted_wrt (<) (map fst (b # t))"
      by simp
    show ?thesis
    proof (cases i)
      case 0
      then show ?thesis
        using Cons ab by (simp add: segment_left)
    next
      case (Suc k)
      with "3.prems"(3) have k: "k < length (b # t)"
        by simp
      have IH: "evalTable (b # t) (fst ((b # t) ! k)) = snd ((b # t) ! k)"
        using srt k Cons by (intro "3.IH"(2)) simp_all
      show ?thesis
      proof (cases k)
        case 0
        then show ?thesis
          using Suc Cons ab by (simp add: segment_right)
      next
        case (Suc m)
        from srt have "\<forall>x\<in>set t. fst b < fst x"
          by simp
        moreover have "(b # t) ! k \<in> set t"
          using k Suc by simp
        ultimately have "fst b < fst ((b # t) ! k)"
          by blast
        then show ?thesis
          using IH \<open>i = Suc k\<close> Cons by simp
      qed
    qed
  qed
qed

text \<open>
  So the order of the tabulated factors is not only enough for the saturated line to be
  monotone, it is also needed: a table that meets the input contract and is evaluated
  monotonically has non-decreasing factors.
\<close>

lemma monotone_needs_sorted_factors:
  assumes "wf_table t"
    and mono: "\<forall>p1 p2. p1 < p2 \<longrightarrow> evalTable t p1 \<le> evalTable t p2"
  shows "sorted_wrt (\<le>) (map snd t)"
proof -
  from assms(1) have srt: "sorted_wrt (<) (map fst t)" and len: "2 \<le> length t"
    by (simp_all add: wf_table_def)
  have "snd (t ! i) \<le> snd (t ! j)" if "i < j" and "j < length t" for i j
  proof -
    from that have "fst (t ! i) < fst (t ! j)"
      using srt by (auto simp add: sorted_wrt_iff_nth_less)
    with mono have "evalTable t (fst (t ! i)) \<le> evalTable t (fst (t ! j))"
      by blast
    then show ?thesis
      using that by (simp add: evalTable_at_key [OF srt len])
  qed
  then show ?thesis
    by (auto simp add: sorted_wrt_iff_nth_less)
qed




subsection \<open>The temperature fallback\<close>

lemma temperature_fallback_first_call:
  "\<not> enableTemperature cfg \<Longrightarrow> \<not> enableEnergy cfg \<Longrightarrow>
     temperature cfg fsys None s phaseIdx =
       (Inr (reservoirTemperature fsys (unat (pvtRegionIndex s))),
        Some (reservoirTemperature fsys (unat (pvtRegionIndex s))))"
  by (simp add: temperature_def pvtRegionIndex_def Let_def)

lemma temperature_fallback_later_call:
  "\<not> enableTemperature cfg \<Longrightarrow> \<not> enableEnergy cfg \<Longrightarrow>
     temperature cfg fsys (Some t) s phaseIdx = (Inr t, Some t)"
  by (simp add: temperature_def)

lemma temperature_never_fails:
  "\<exists>t. fst (temperature cfg fsys tmp s phaseIdx) = Inr t"
  by (auto simp add: temperature_def deref_def Let_def split: option.split)

text \<open>
  C3. With the temperature and the energy feature both disabled,
  \<open>temperature(phaseIdx)\<close> is claimed to return
  \<open>FluidSystem::reservoirTemperature(pvtRegionIdx)\<close> for the region the object is
  configured with at the time of the call. The code does so in the first call only: the
  fallback is a function-local static, which later calls return as it is. On an object
  of region 0 the first call returns the 300 K of region 0; after
  \<open>setPvtRegionIndex(1)\<close> the second call returns 300 K again, while the reservoir
  temperature of region 1 is 350 K. Neither call fails.
\<close>

theorem temperature_fallback_is_stale:
  "temperature (example_cfg False False True 3) example_system None example_state 0
     = (Inr 300, Some 300) \<and>
   temperature (example_cfg False False True 3) example_system (Some 300)
       (setPvtRegionIndex 1 example_state) 0
     = (Inr 300, Some 300) \<and>
   reservoirTemperature example_system
       (unat (pvtRegionIndex (setPvtRegionIndex 1 example_state))) = 350"
  by (simp add: temperature_def example_cfg_def example_system_def example_state_def
      blackOilFluidSystem_def setPvtRegionIndex_def pvtRegionIndex_def)

subsection \<open>The dissolution factors\<close>

text \<open>
  C4. With the dissolution feature disabled, \<open>Rs()\<close> and \<open>Rv()\<close> return exactly 0
  in every state, whatever was done to the object before, and do not fail. In that
  configuration no call of \<open>setRs\<close> or \<open>setRv\<close> completes: each fails on the
  disabled storage before it writes.
\<close>

theorem Rs_Rv_zero_without_dissolution:
  "\<not> enableDissolution cfg \<Longrightarrow>
     Rs cfg s = Inr 0 \<and> Rv cfg s = Inr 0 \<and>
     setRs cfg v s = Inl DisabledStorage \<and> setRv cfg v s = Inl DisabledStorage"
  by (simp add: Rs_def Rv_def setRs_def setRv_def deref_def andThen_def)

theorem Rs_Rv_zero_without_dissolution_witness:
  "\<not> enableDissolution (example_cfg False False False 3) \<and>
   Rs (example_cfg False False False 3) example_state = Inr 0 \<and>
   Rv (example_cfg False False False 3) example_state = Inr 0 \<and>
   setRs (example_cfg False False False 3) 7 example_state = Inl DisabledStorage \<and>
   setRv (example_cfg False False False 3) 7 example_state = Inl DisabledStorage"
  using Rs_Rv_zero_without_dissolution [of "example_cfg False False False 3" example_state 7]
  by (simp add: example_cfg_def)

subsection \<open>The phase index mapping\<close>

lemma dense_packing_left:
  "i < length (filter P [0..<n]) \<Longrightarrow> length (filter P [0..<(filter P [0..<n] ! i)]) = i"
proof (induction n)
  case 0 then show ?case by simp
next
  case (Suc n)
  show ?case
  proof (cases "i < length (filter P [0..<n])")
    case True
    then show ?thesis using Suc.IH by (simp add: nth_append)
  next
    case False
    with Suc.prems have P: "P n" and i: "i = length (filter P [0..<n])"
      by (auto split: if_splits)
    then show ?thesis by (simp add: nth_append)
  qed
qed

lemma dense_packing_right:
  "j < n \<Longrightarrow> P j \<Longrightarrow> filter P [0..<n] ! (length (filter P [0..<j])) = j"
proof (induction n)
  case 0 then show ?case by simp
next
  case (Suc n)
  show ?case
  proof (cases "j < n")
    case True
    have "length (filter P [0..<j]) < length (filter P [0..<n])"
    proof -
      have "[0..<n] = [0..<j] @ j # [Suc j..<n]"
        using True by (metis upt_add_eq_append upt_conv_Cons le0 less_imp_add_positive add_0 less_or_eq_imp_le)
      then have "filter P [0..<n] = filter P [0..<j] @ j # filter P [Suc j..<n]"
        using Suc.prems(2) by (metis filter.simps(2) filter_append)
      then show ?thesis by simp
    qed
    then show ?thesis using Suc.IH True Suc.prems by (simp add: nth_append)
  next
    case False
    with Suc.prems have "j = n" by simp
    then show ?thesis using Suc.prems by (simp add: nth_append)
  qed
qed

text \<open>
  C5. Round trip of the phase indices. For every choice of active phases (each of
  water, oil and gas simulated or not) and every active storage index \<open>i\<close>, mapping
  \<open>i\<close> to its canonical index and back gives \<open>i\<close>; for every active canonical index
  \<open>j\<close>, mapping \<open>j\<close> to its storage index and back gives \<open>j\<close>; and with three
  storage phases both maps are the identity.
\<close>

theorem phase_index_round_trip:
  "(numStoragePhases cfg = 3 \<or> i < length (activePhases phaseIsActive) \<longrightarrow>
      canonicalToStoragePhaseIndex cfg (blackOilFluidSystem phaseIsActive resTemp)
        (storageToCanonicalPhaseIndex cfg (blackOilFluidSystem phaseIsActive resTemp) i) = i) \<and>
   (numStoragePhases cfg = 3 \<or> j < 3 \<and> phaseIsActive j \<longrightarrow>
      storageToCanonicalPhaseIndex cfg (blackOilFluidSystem phaseIsActive resTemp)
        (canonicalToStoragePhaseIndex cfg (blackOilFluidSystem phaseIsActive resTemp) j) = j) \<and>
   (numStoragePhases cfg = 3 \<longrightarrow>
      storageToCanonicalPhaseIndex cfg (blackOilFluidSystem phaseIsActive resTemp) i = i \<and>
      canonicalToStoragePhaseIndex cfg (blackOilFluidSystem phaseIsActive resTemp) j = j)"
  by (simp add: storageToCanonicalPhaseIndex_def canonicalToStoragePhaseIndex_def
      blackOilFluidSystem_def activePhases_def dense_packing_left dense_packing_right)

text \<open>The theorem for oil and gas without water: storage index 1 is gas, phase 2.\<close>

theorem phase_index_round_trip_witness:
  "numStoragePhases (example_cfg True True True 2) \<noteq> 3 \<and>
   1 < length (activePhases (\<lambda>phaseIdx. phaseIdx \<noteq> 0)) \<and>
   storageToCanonicalPhaseIndex (example_cfg True True True 2) gas_oil_system 1 = 2 \<and>
   canonicalToStoragePhaseIndex (example_cfg True True True 2) gas_oil_system 2 = 1 \<and>
   canonicalToStoragePhaseIndex (example_cfg True True True 2) gas_oil_system
     (storageToCanonicalPhaseIndex (example_cfg True True True 2) gas_oil_system 1) = 1 \<and>
   storageToCanonicalPhaseIndex (example_cfg True True True 2) gas_oil_system
     (canonicalToStoragePhaseIndex (example_cfg True True True 2) gas_oil_system 2) = 2"
proof -
  have three: "[0..<3] = [0, 1, 2]" and two: "[0..<2] = [0, 1]"
    by (simp_all add: upt_rec)
  have act: "1 < length (activePhases (\<lambda>phaseIdx. phaseIdx \<noteq> 0))"
    by (simp add: activePhases_def three)
  have s2c: "storageToCanonicalPhaseIndex (example_cfg True True True 2) gas_oil_system 1 = 2"
    by (simp add: storageToCanonicalPhaseIndex_def example_cfg_def gas_oil_system_def
        blackOilFluidSystem_def activePhases_def three)
  have c2s: "canonicalToStoragePhaseIndex (example_cfg True True True 2) gas_oil_system 2 = 1"
    by (simp add: canonicalToStoragePhaseIndex_def example_cfg_def gas_oil_system_def
        blackOilFluidSystem_def two)
  show ?thesis
    using phase_index_round_trip
      [of "example_cfg True True True 2" 1 "\<lambda>phaseIdx. phaseIdx \<noteq> 0" "\<lambda>r. 300" 2]
      act s2c c2s
    by (simp add: gas_oil_system_def example_cfg_def)
qed

subsection \<open>assign\<close>

lemma length_writes [simp]: "length (writes k v js xs) = length xs"
  by (induction js arbitrary: xs) (simp_all add: writes_def)

lemma writes_Nil [simp]: "writes k v [] xs = xs"
  by (simp add: writes_def)

lemma writes_Cons: "writes k v (j # js) xs = writes k v js (xs[k j := v j])"
  by (simp add: writes_def)

lemma writes_snoc: "writes k v (js @ [j]) xs = (writes k v js xs)[k j := v j]"
  by (simp add: writes_def)

lemma writes_nth:
  "m < length xs \<Longrightarrow>
     writes k v js xs ! m =
       (case find (\<lambda>j. k j = m) (rev js) of None \<Rightarrow> xs ! m | Some j \<Rightarrow> v j)"
proof (induction js rule: rev_induct)
  case Nil
  then show ?case by simp
next
  case (snoc j js)
  then show ?case by (auto simp add: writes_snoc nth_list_update)
qed

lemma writes_idem: "writes k v js (writes k v js xs) = writes k v js xs"
  by (rule nth_equalityI) (simp_all add: writes_nth split: option.split)

lemma writes_identity:
  assumes "\<forall>j<n. k j = j" and "i \<le> n" and "length xs = n"
  shows "writes k v [0..<i] xs = map v [0..<i] @ drop i xs"
  using assms(2)
proof (induction i)
  case 0
  then show ?case by simp
next
  case (Suc i)
  then have "i < n" by simp
  with assms have ki: "k i = i" by simp
  from Suc have IH: "writes k v [0..<i] xs = map v [0..<i] @ drop i xs" by simp
  have "drop i xs = xs ! i # drop (Suc i) xs"
    using \<open>i < n\<close> assms(3) by (simp add: Cons_nth_drop_Suc)
  then show ?case
    by (simp add: writes_snoc IH ki list_update_append)
qed

lemma assign_phase_eq:
  "assign_phase cfg fsys fs r j s =
     (if slots_ok cfg fsys s j then Inr (phase_writes cfg fsys fs r [j] s)
      else Inl OutOfBounds)"
  by (auto simp add: assign_phase_def slots_ok_def phase_writes_def phase_slot_def Let_def
      setSaturation_def setPressure_def setDensity_def setEnthalpy_def setInvB_def
      andThen_def array_set_def assert_dbg_def deref_def writes_Cons)

lemma slots_ok_phase_writes [simp]:
  "slots_ok cfg fsys (phase_writes cfg fsys fs r js s) = slots_ok cfg fsys s"
  by (rule ext) (simp add: slots_ok_def phase_writes_def)

lemma phase_writes_Cons:
  "phase_writes cfg fsys fs r (j # js) s =
     phase_writes cfg fsys fs r js (phase_writes cfg fsys fs r [j] s)"
  by (simp add: phase_writes_def writes_Cons)

lemma phase_writes_Nil [simp]: "phase_writes cfg fsys fs r [] s = s"
  by (simp add: phase_writes_def)

lemma assign_loop_eq:
  "assign_loop cfg fsys fs r i s =
     (if list_all (slots_ok cfg fsys s) [i..<numStoragePhases cfg]
      then Inr (phase_writes cfg fsys fs r [i..<numStoragePhases cfg] s)
      else Inl OutOfBounds)"
proof (induction cfg fsys fs r i s rule: assign_loop.induct)
  case (1 cfg fsys fs r i s)
  show ?case
  proof (cases "i < numStoragePhases cfg")
    case False
    then show ?thesis by (simp add: assign_loop.simps [of cfg fsys fs r i s])
  next
    case True
    then have upt: "[i..<numStoragePhases cfg] = i # [Suc i..<numStoragePhases cfg]"
      by (simp add: upt_conv_Cons)
    show ?thesis
    proof (cases "slots_ok cfg fsys s i")
      case False
      then show ?thesis
        using True by (simp add: assign_loop.simps [of cfg fsys fs r i s] assign_phase_eq upt)
    next
      case ok: True
      have ph: "assign_phase cfg fsys fs r i s = Inr (phase_writes cfg fsys fs r [i] s)"
        using ok by (simp add: assign_phase_eq)
      show ?thesis
        using True ok "1.IH" [OF True ph]
        by (simp add: assign_loop.simps [of cfg fsys fs r i s] ph upt
            phase_writes_Cons [of cfg fsys fs r i "[Suc i..<numStoragePhases cfg]"])
    qed
  qed
qed

lemma slots_ok_head_writes [simp]:
  "slots_ok cfg fsys (head_writes cfg fs s) = slots_ok cfg fsys s"
  by (rule ext) (simp add: slots_ok_def head_writes_def)

lemma assign_eq:
  "assign cfg fsys fs s =
     (if list_all (slots_ok cfg fsys s) [0..<numStoragePhases cfg]
      then Inr (phase_writes cfg fsys fs (getPvtRegionIndex fs) [0..<numStoragePhases cfg]
                  (head_writes cfg fs s))
      else Inl OutOfBounds)"
proof -
  have "assign cfg fsys fs s =
          assign_loop cfg fsys fs (getPvtRegionIndex fs) 0 (head_writes cfg fs s)"
    by (auto simp add: assign_def setTemperature_def setRs_def setRv_def setPvtRegionIndex_def
        andThen_def assert_dbg_def deref_def head_writes_def Let_def)
  then show ?thesis by (simp add: assign_loop_eq)
qed

text \<open>
  The index maps of the modelled fluid system round-trip on the storage indices, with
  three storage phases and with at most as many storage phases as there are active
  phases.
\<close>

lemma blackOilFluidSystem_round_trip:
  assumes "numStoragePhases cfg = 3 \<or> numStoragePhases cfg \<le> length (activePhases phaseIsActive)"
  shows "\<forall>i<numStoragePhases cfg.
           canonicalToStoragePhaseIndex cfg (blackOilFluidSystem phaseIsActive resTemp)
             (storageToCanonicalPhaseIndex cfg (blackOilFluidSystem phaseIsActive resTemp) i) = i"
  using assms
  by (auto simp add: storageToCanonicalPhaseIndex_def canonicalToStoragePhaseIndex_def
      blackOilFluidSystem_def activePhases_def dense_packing_left)

text \<open>
  C6, as amended. After \<open>assign(source)\<close> on an object whose arrays have
  \<open>numStoragePhases\<close> elements, with index maps that round-trip on the storage
  indices: the call returns; the PVT region index is the one obtained from the source
  modulo \<open>2^16\<close>; the temperature is \<open>source.temperature(0)\<close> when the temperature or
  the energy feature is enabled; \<open>Rs\<close> and \<open>Rv\<close> are the values of the helpers when
  the dissolution feature is enabled; and for every storage phase the saturation,
  pressure, density, enthalpy (when energy is enabled) and \<open>invB\<close> of its canonical
  phase are the values obtained from the source. Every array consists of values of the
  source alone, so nothing of the previous state is left, and no value is checked.
\<close>

theorem assign_postcondition:
  fixes s :: "('a::zero) BlackOilFluidStateSimple"
  assumes wf: "wf_state cfg s"
    and rt: "\<forall>i<numStoragePhases cfg.
               canonicalToStoragePhaseIndex cfg fsys (storageToCanonicalPhaseIndex cfg fsys i) = i"
  shows "\<exists>s'. assign cfg fsys fs s = Inr s' \<and> wf_state cfg s' \<and>
           unat (pvtRegionIndex s') = unat (getPvtRegionIndex fs) mod 2 ^ 16 \<and>
           (enableTemperature cfg \<or> enableEnergy cfg \<longrightarrow>
              (\<forall>tmp phaseIdx.
                 temperature cfg fsys tmp s' phaseIdx = (Inr (fs_temperature fs 0), tmp))) \<and>
           (enableDissolution cfg \<longrightarrow>
              Rs cfg s' = Inr (getRs fs (getPvtRegionIndex fs)) \<and>
              Rv cfg s' = Inr (getRv fs (getPvtRegionIndex fs))) \<and>
           (\<forall>i<numStoragePhases cfg.
              saturation cfg fsys s' (storageToCanonicalPhaseIndex cfg fsys i)
                = Inr (fs_saturation fs (storageToCanonicalPhaseIndex cfg fsys i)) \<and>
              pressure cfg fsys s' (storageToCanonicalPhaseIndex cfg fsys i)
                = Inr (fs_pressure fs (storageToCanonicalPhaseIndex cfg fsys i)) \<and>
              density cfg fsys s' (storageToCanonicalPhaseIndex cfg fsys i)
                = Inr (fs_density fs (storageToCanonicalPhaseIndex cfg fsys i)) \<and>
              (enableEnergy cfg \<longrightarrow>
                 enthalpy cfg fsys s' (storageToCanonicalPhaseIndex cfg fsys i)
                   = Inr (fs_enthalpy fs (storageToCanonicalPhaseIndex cfg fsys i))) \<and>
              invB cfg fsys s' (storageToCanonicalPhaseIndex cfg fsys i)
                = Inr (getInvB fs (storageToCanonicalPhaseIndex cfg fsys i)
                        (getPvtRegionIndex fs))) \<and>
           saturation_m s' =
             map (\<lambda>i. fs_saturation fs (storageToCanonicalPhaseIndex cfg fsys i))
               [0..<numStoragePhases cfg] \<and>
           pressure_m s' =
             map (\<lambda>i. fs_pressure fs (storageToCanonicalPhaseIndex cfg fsys i))
               [0..<numStoragePhases cfg] \<and>
           density_m s' =
             map (\<lambda>i. fs_density fs (storageToCanonicalPhaseIndex cfg fsys i))
               [0..<numStoragePhases cfg] \<and>
           (enableEnergy cfg \<longrightarrow>
              enthalpy_m s' =
                map (\<lambda>i. fs_enthalpy fs (storageToCanonicalPhaseIndex cfg fsys i))
                  [0..<numStoragePhases cfg]) \<and>
           invB_m s' =
             map (\<lambda>i. getInvB fs (storageToCanonicalPhaseIndex cfg fsys i) (getPvtRegionIndex fs))
               [0..<numStoragePhases cfg]"
proof -
  let ?n = "numStoragePhases cfg"
  let ?s' = "phase_writes cfg fsys fs (getPvtRegionIndex fs) [0..<?n] (head_writes cfg fs s)"
  from rt have slot: "\<forall>j<?n. phase_slot cfg fsys j = j"
    by (simp add: phase_slot_def)
  have ok: "list_all (slots_ok cfg fsys s) [0..<?n]"
    using wf slot by (simp add: list_all_iff slots_ok_def wf_state_def)
  have res: "assign cfg fsys fs s = Inr ?s'"
    using ok by (simp add: assign_eq)
  have full: "writes (phase_slot cfg fsys) v [0..<?n] xs = map v [0..<?n]"
    if "length xs = ?n" for v :: "nat \<Rightarrow> 'a" and xs
    using writes_identity [OF slot order_refl that, of v] that by simp
  have sat: "saturation_m ?s' =
      map (\<lambda>i. fs_saturation fs (storageToCanonicalPhaseIndex cfg fsys i)) [0..<?n]"
    using wf by (simp add: phase_writes_def head_writes_def wf_state_def full)
  have prs: "pressure_m ?s' =
      map (\<lambda>i. fs_pressure fs (storageToCanonicalPhaseIndex cfg fsys i)) [0..<?n]"
    using wf by (simp add: phase_writes_def head_writes_def wf_state_def full)
  have den: "density_m ?s' =
      map (\<lambda>i. fs_density fs (storageToCanonicalPhaseIndex cfg fsys i)) [0..<?n]"
    using wf by (simp add: phase_writes_def head_writes_def wf_state_def full)
  have ent: "enableEnergy cfg \<Longrightarrow> enthalpy_m ?s' =
      map (\<lambda>i. fs_enthalpy fs (storageToCanonicalPhaseIndex cfg fsys i)) [0..<?n]"
    using wf by (simp add: phase_writes_def head_writes_def wf_state_def full)
  have inv: "invB_m ?s' =
      map (\<lambda>i. getInvB fs (storageToCanonicalPhaseIndex cfg fsys i) (getPvtRegionIndex fs))
        [0..<?n]"
    using wf by (simp add: phase_writes_def head_writes_def wf_state_def full)
  have wf': "wf_state cfg ?s'"
    using wf by (simp add: wf_state_def phase_writes_def head_writes_def)
  have reg: "unat (pvtRegionIndex ?s') = unat (getPvtRegionIndex fs) mod 2 ^ 16"
    by (simp add: pvtRegionIndex_def phase_writes_def head_writes_def unsigned_ucast_eq
        take_bit_eq_mod)
  have tem: "enableTemperature cfg \<or> enableEnergy cfg \<Longrightarrow>
      temperature cfg fsys tmp ?s' phaseIdx = (Inr (fs_temperature fs 0), tmp)" for tmp phaseIdx
    by (auto simp add: temperature_def deref_def phase_writes_def head_writes_def)
  have dis: "enableDissolution cfg \<Longrightarrow>
      Rs cfg ?s' = Inr (getRs fs (getPvtRegionIndex fs)) \<and>
      Rv cfg ?s' = Inr (getRv fs (getPvtRegionIndex fs))"
    by (simp add: Rs_def Rv_def deref_def phase_writes_def head_writes_def)
  have acc: "saturation cfg fsys ?s' (storageToCanonicalPhaseIndex cfg fsys i)
        = Inr (fs_saturation fs (storageToCanonicalPhaseIndex cfg fsys i)) \<and>
      pressure cfg fsys ?s' (storageToCanonicalPhaseIndex cfg fsys i)
        = Inr (fs_pressure fs (storageToCanonicalPhaseIndex cfg fsys i)) \<and>
      density cfg fsys ?s' (storageToCanonicalPhaseIndex cfg fsys i)
        = Inr (fs_density fs (storageToCanonicalPhaseIndex cfg fsys i)) \<and>
      (enableEnergy cfg \<longrightarrow>
         enthalpy cfg fsys ?s' (storageToCanonicalPhaseIndex cfg fsys i)
           = Inr (fs_enthalpy fs (storageToCanonicalPhaseIndex cfg fsys i))) \<and>
      invB cfg fsys ?s' (storageToCanonicalPhaseIndex cfg fsys i)
        = Inr (getInvB fs (storageToCanonicalPhaseIndex cfg fsys i) (getPvtRegionIndex fs))"
    if "i < ?n" for i
    using that rt ent
    by (simp add: saturation_def pressure_def density_def enthalpy_def invB_def
        array_get_def andThen_def deref_def sat prs den inv)
  show ?thesis
    using res wf' reg tem dis acc sat prs den ent inv by blast
qed

text \<open>
  The claim as it was stated, without the reduction modulo \<open>2^16\<close>, fails for a
  source that reports the region index 65536: the object then holds the index 0.
\<close>

theorem assign_region_index_counterexample:
  "map_sum id (unat \<circ> pvtRegionIndex)
     (assign (example_cfg True True True 3) example_system (example_source 65536) example_state)
     = Inr 0 \<and>
   unat (getPvtRegionIndex (example_source 65536)) = 65536"
proof -
  have three: "[0..<3] = [0, 1, 2]"
    by (simp add: upt_rec)
  show ?thesis
    by (simp add: assign_eq three slots_ok_def phase_slot_def
        canonicalToStoragePhaseIndex_def storageToCanonicalPhaseIndex_def
        example_cfg_def example_state_def example_source_def
        pvtRegionIndex_def phase_writes_def head_writes_def)
qed

text \<open>The theorem for an object of two storage phases, oil and gas, and region 7.\<close>

theorem assign_postcondition_witness:
  "wf_state (example_cfg True True True 2) gas_oil_state \<and>
   canonicalToStoragePhaseIndex (example_cfg True True True 2) gas_oil_system
     (storageToCanonicalPhaseIndex (example_cfg True True True 2) gas_oil_system 0) = 0 \<and>
   canonicalToStoragePhaseIndex (example_cfg True True True 2) gas_oil_system
     (storageToCanonicalPhaseIndex (example_cfg True True True 2) gas_oil_system 1) = 1 \<and>
   (\<exists>s'. assign (example_cfg True True True 2) gas_oil_system (example_source 7) gas_oil_state
            = Inr s' \<and>
          unat (pvtRegionIndex s') = 7 \<and>
          temperature (example_cfg True True True 2) gas_oil_system None s' 0
            = (Inr 350, None) \<and>
          Rs (example_cfg True True True 2) s' = Inr 120 \<and>
          pressure_m s' = [101, 102] \<and>
          pressure (example_cfg True True True 2) gas_oil_system s' 2 = Inr 102)"
proof -
  let ?cfg = "example_cfg True True True 2"
  have three: "[0..<3] = [0, 1, 2]" and two: "[0..<2] = [0, 1]" and one: "[0..<1] = [0]"
    by (simp_all add: upt_rec)
  have wf: "wf_state ?cfg gas_oil_state"
    by (simp add: wf_state_def example_cfg_def gas_oil_state_def)
  have s0: "storageToCanonicalPhaseIndex ?cfg gas_oil_system 0 = 1"
    and s1: "storageToCanonicalPhaseIndex ?cfg gas_oil_system 1 = 2"
    by (simp_all add: storageToCanonicalPhaseIndex_def example_cfg_def gas_oil_system_def
        blackOilFluidSystem_def activePhases_def three)
  have c1: "canonicalToStoragePhaseIndex ?cfg gas_oil_system 1 = 0"
    and c2: "canonicalToStoragePhaseIndex ?cfg gas_oil_system 2 = 1"
    by (simp_all add: canonicalToStoragePhaseIndex_def example_cfg_def gas_oil_system_def
        blackOilFluidSystem_def two one)
  have n: "numStoragePhases ?cfg = 2"
    by (simp add: example_cfg_def)
  have rt: "\<forall>i<numStoragePhases ?cfg.
      canonicalToStoragePhaseIndex ?cfg gas_oil_system
        (storageToCanonicalPhaseIndex ?cfg gas_oil_system i) = i"
  proof (intro allI impI)
    fix i
    assume "i < numStoragePhases ?cfg"
    then have "i = 0 \<or> i = 1"
      by (auto simp add: n)
    then show "canonicalToStoragePhaseIndex ?cfg gas_oil_system
        (storageToCanonicalPhaseIndex ?cfg gas_oil_system i) = i"
      using s0 s1 c1 c2 by auto
  qed
  from assign_postcondition [OF wf rt, of "example_source 7"]
  obtain s' where s': "assign ?cfg gas_oil_system (example_source 7) gas_oil_state = Inr s'"
    and reg: "unat (pvtRegionIndex s') = unat (getPvtRegionIndex (example_source 7)) mod 2 ^ 16"
    and tem: "enableTemperature ?cfg \<or> enableEnergy ?cfg \<longrightarrow>
         (\<forall>tmp phaseIdx. temperature ?cfg gas_oil_system tmp s' phaseIdx
            = (Inr (fs_temperature (example_source 7) 0), tmp))"
    and dis: "enableDissolution ?cfg \<longrightarrow>
         Rs ?cfg s' = Inr (getRs (example_source 7) (getPvtRegionIndex (example_source 7))) \<and>
         Rv ?cfg s' = Inr (getRv (example_source 7) (getPvtRegionIndex (example_source 7)))"
    and acc: "\<forall>i<numStoragePhases ?cfg.
         pressure ?cfg gas_oil_system s' (storageToCanonicalPhaseIndex ?cfg gas_oil_system i)
           = Inr (fs_pressure (example_source 7)
                    (storageToCanonicalPhaseIndex ?cfg gas_oil_system i))"
    and prs: "pressure_m s' =
         map (\<lambda>i. fs_pressure (example_source 7)
                (storageToCanonicalPhaseIndex ?cfg gas_oil_system i))
           [0..<numStoragePhases ?cfg]"
    by blast
  from reg have "unat (pvtRegionIndex s') = 7"
    by (simp add: example_source_def)
  moreover from tem have "temperature ?cfg gas_oil_system None s' 0 = (Inr 350, None)"
    by (simp add: example_cfg_def example_source_def)
  moreover from dis have "Rs ?cfg s' = Inr 120"
    by (simp add: example_cfg_def example_source_def)
  moreover have "pressure_m s' = [101, 102]"
  proof -
    have "storageToCanonicalPhaseIndex ?cfg gas_oil_system (Suc 0) = 2"
      using s1 by simp
    then show ?thesis
      unfolding prs n two by (simp add: s0 example_source_def)
  qed
  moreover have "pressure ?cfg gas_oil_system s' 2 = Inr 102"
  proof -
    have "(1::nat) < numStoragePhases ?cfg"
      by (simp add: n)
    with acc have "pressure ?cfg gas_oil_system s'
        (storageToCanonicalPhaseIndex ?cfg gas_oil_system 1)
      = Inr (fs_pressure (example_source 7)
               (storageToCanonicalPhaseIndex ?cfg gas_oil_system 1))"
      by blast
    then show ?thesis
      unfolding s1 by (simp add: example_source_def)
  qed
  ultimately show ?thesis
    using wf s' s0 s1 c1 c2 by auto
qed

lemma head_writes_phase_writes:
  "head_writes cfg fs (phase_writes cfg fsys fs r js s) =
     phase_writes cfg fsys fs r js (head_writes cfg fs s)"
  by (simp add: head_writes_def phase_writes_def)

lemma head_writes_idem: "head_writes cfg fs (head_writes cfg fs s) = head_writes cfg fs s"
  by (simp add: head_writes_def)

lemma phase_writes_idem:
  "phase_writes cfg fsys fs r js (phase_writes cfg fsys fs r js s) =
     phase_writes cfg fsys fs r js s"
  by (simp add: phase_writes_def writes_idem)

text \<open>
  C7. Idempotence of \<open>assign\<close>. Calling \<open>assign(fs)\<close> twice in succession leaves
  the object in the state that one call leaves it in: the second call, run on the
  result of the first, returns that same state (and where the first call fails there is
  no second one).
\<close>

theorem assign_idempotent:
  "andThen (assign cfg fsys fs s) (assign cfg fsys fs) = assign cfg fsys fs s"
  by (simp add: assign_eq andThen_def head_writes_phase_writes head_writes_idem
      phase_writes_idem)

subsection \<open>The setters of the optional members\<close>

lemma setTemperature_guard:
  "\<not> NDEBUG cfg \<Longrightarrow> \<not> enableTemperature cfg \<Longrightarrow> \<not> enableEnergy cfg \<Longrightarrow>
     setTemperature cfg v s = Inl AssertionFailed"
  by (simp add: setTemperature_def assert_dbg_def andThen_def)

lemma setEnthalpy_guard_both_disabled:
  "\<not> NDEBUG cfg \<Longrightarrow> \<not> enableTemperature cfg \<Longrightarrow> \<not> enableEnergy cfg \<Longrightarrow>
     setEnthalpy cfg fsys phaseIdx v s = Inl AssertionFailed"
  by (simp add: setEnthalpy_def assert_dbg_def andThen_def)

lemma setEnthalpy_guard_missed:
  "enableTemperature cfg \<Longrightarrow> \<not> enableEnergy cfg \<Longrightarrow>
     setEnthalpy cfg fsys phaseIdx v s = Inl DisabledStorage"
  by (simp add: setEnthalpy_def assert_dbg_def deref_def andThen_def)

text \<open>
  C8. \<open>setEnthalpy\<close> with the energy feature disabled is claimed to be caught by
  the assertion of a debug build. The assertion of \<open>setEnthalpy\<close> is the one of
  \<open>setTemperature\<close>, \<open>enableTemperature || enableEnergy\<close>: in a debug build with
  the temperature feature enabled and the energy feature disabled it holds, and the
  call goes on to the disabled enthalpy storage, where it fails.
\<close>

theorem setEnthalpy_assert_misses:
  "assert_dbg (example_cfg True False True 3)
       (enableTemperature (example_cfg True False True 3) \<or>
        enableEnergy (example_cfg True False True 3)) = Inr () \<and>
   setEnthalpy (example_cfg True False True 3) example_system 0 1 example_state
     = Inl DisabledStorage"
  by (simp add: setEnthalpy_def assert_dbg_def deref_def andThen_def example_cfg_def)

subsection \<open>The internal energy\<close>

lemma internalEnergy_without_energy:
  "\<not> enableEnergy cfg \<Longrightarrow> internalEnergy cfg fsys s phaseIdx = Inl DisabledStorage"
  by (simp add: internalEnergy_def deref_def andThen_def)

text \<open>
  C9. In a state with the energy feature enabled, for every phase index that has a
  storage element, \<open>internalEnergy(phaseIdx)\<close> returns exactly \<open>enthalpy(phaseIdx)\<close>
  minus \<open>pressure(phaseIdx)\<close> divided by \<open>density(phaseIdx)\<close>.
\<close>

theorem internalEnergy_eq:
  assumes "enableEnergy cfg" and "wf_state cfg s"
    and "canonicalToStoragePhaseIndex cfg fsys phaseIdx < numStoragePhases cfg"
  shows "\<exists>h p rho.
           enthalpy cfg fsys s phaseIdx = Inr h \<and>
           pressure cfg fsys s phaseIdx = Inr p \<and>
           density cfg fsys s phaseIdx = Inr rho \<and>
           internalEnergy cfg fsys s phaseIdx = Inr (h - p / rho)"
  using assms
  by (simp add: internalEnergy_def enthalpy_def pressure_def density_def deref_def
      andThen_def array_get_def wf_state_def)

theorem internalEnergy_eq_witness:
  "enableEnergy (example_cfg False True True 3) \<and>
   wf_state (example_cfg False True True 3) example_state \<and>
   canonicalToStoragePhaseIndex (example_cfg False True True 3) example_system 0
     < numStoragePhases (example_cfg False True True 3) \<and>
   enthalpy (example_cfg False True True 3) example_system example_state 0 = Inr 10 \<and>
   pressure (example_cfg False True True 3) example_system example_state 0 = Inr 6 \<and>
   density (example_cfg False True True 3) example_system example_state 0 = Inr 3 \<and>
   internalEnergy (example_cfg False True True 3) example_system example_state 0 = Inr 8"
  using internalEnergy_eq
    [of "example_cfg False True True 3" example_state example_system 0]
  by (simp add: example_cfg_def example_state_def wf_state_def
      canonicalToStoragePhaseIndex_def enthalpy_def pressure_def density_def deref_def
      andThen_def array_get_def)

subsection \<open>The PVT region index\<close>

text \<open>
  C10. The PVT region index is narrowed: for every \<open>unsigned\<close> value \<open>n\<close>,
  \<open>pvtRegionIndex()\<close> after \<open>setPvtRegionIndex(n)\<close> is \<open>n\<close> modulo \<open>2^16\<close>, since the
  member is an \<open>unsigned short\<close>. The setter has no failure branch: an index of 65536
  or more is truncated, not rejected.
\<close>

theorem setPvtRegionIndex_narrows:
  "unat (pvtRegionIndex (setPvtRegionIndex n s)) = unat n mod 2 ^ 16"
  by (simp add: pvtRegionIndex_def setPvtRegionIndex_def unsigned_ucast_eq take_bit_eq_mod)

lemma setPvtRegionIndex_65536:
  "unat (pvtRegionIndex (setPvtRegionIndex 65536 s)) = 0"
  by (simp add: pvtRegionIndex_def setPvtRegionIndex_def)

end
